theory Spec2Isabelle
  imports Complex_Main
begin

section \<open>Landmark registration of a phantom (vtkPhantomRegistrationAlgo)\<close>

text \<open>
  The class \<^verbatim>\<open>vtkPhantomRegistrationAlgo\<close> holds two point containers (the defined and
  the recorded landmarks), a 4x4 matrix and a scalar error. \<^verbatim>\<open>Register\<close> copies the
  point pairs, hands them to a library solver, writes the solver's matrix and offset into
  a homogeneous 4x4 matrix and calls \<^verbatim>\<open>ComputeError\<close>; \<^verbatim>\<open>ReadConfiguration\<close> fills the
  defined landmarks from an XML tree.

  Conventions of the model:
  \<^item> a C++ \<^verbatim>\<open>double\<close> is a \<^typ>\<open>real\<close>; rounding is not modelled. The one place where
    the source can divide by zero keeps the IEEE outcome as a value of its own;
  \<^item> behaviour that C++ leaves undefined (a read past the end of a point container, a read
    of a slot that was never written, a null pointer) is a \<open>fault\<close>, the left summand
    of every result;
  \<^item> the object's fields are a record that each member function takes and returns.
\<close>

subsection \<open>Fixed-size arrays\<close>

type_synonym vec3 = "real \<times> real \<times> real"
type_synonym vec4 = "real \<times> real \<times> real \<times> real"

text \<open>\<^verbatim>\<open>itk::Matrix<double,3,3>\<close> and \<^verbatim>\<open>vtkMatrix4x4\<close>, both stored by rows.\<close>

type_synonym mat3 = "vec3 \<times> vec3 \<times> vec3"
type_synonym mat4 = "vec4 \<times> vec4 \<times> vec4 \<times> vec4"

fun get3 :: "'a \<times> 'a \<times> 'a \<Rightarrow> nat \<Rightarrow> 'a" where
  "get3 (a, b, c) i = (if i = 0 then a else if i = 1 then b else c)"

fun get4 :: "'a \<times> 'a \<times> 'a \<times> 'a \<Rightarrow> nat \<Rightarrow> 'a" where
  "get4 (a, b, c, d) i = (if i = 0 then a else if i = 1 then b else if i = 2 then c else d)"

fun set4 :: "nat \<Rightarrow> 'a \<Rightarrow> 'a \<times> 'a \<times> 'a \<times> 'a \<Rightarrow> 'a \<times> 'a \<times> 'a \<times> 'a" where
  "set4 i v (a, b, c, d) =
     (if i = 0 then (v, b, c, d) else if i = 1 then (a, v, c, d)
      else if i = 2 then (a, b, v, d) else (a, b, c, v))"

subsection \<open>Library operations the source calls\<close>

text \<open>
  Modelled from the spec: the VTK classes \<^verbatim>\<open>vtkMatrix4x4\<close>, \<^verbatim>\<open>vtkMath\<close> and
  \<^verbatim>\<open>vtkPoints\<close> are libraries the repository links against; their code is not among the
  source files. The matrix operations are the ones the spec's data model names (a 4x4
  homogeneous matrix applied to a point with fourth coordinate 1, a Euclidean distance).
  The point container follows section 4.1: insertion at a 0-based index, a later
  insertion at a used index overwrites, the count is the number of points held, reset
  clears. An insertion past the end grows the container up to that index; the slots in
  between hold no value.
\<close>

definition Identity :: mat4 where
  "Identity = ((1, 0, 0, 0), (0, 1, 0, 0), (0, 0, 1, 0), (0, 0, 0, 1))"

definition SetElement :: "nat \<Rightarrow> nat \<Rightarrow> real \<Rightarrow> mat4 \<Rightarrow> mat4" where
  "SetElement i j v m = set4 i (set4 j v (get4 m i)) m"

fun dot4 :: "vec4 \<Rightarrow> vec4 \<Rightarrow> real" where
  "dot4 (a, b, c, d) (x, y, z, w) = a * x + b * y + c * z + d * w"

fun MultiplyDoublePoint :: "mat4 \<Rightarrow> vec4 \<Rightarrow> vec4" where
  "MultiplyDoublePoint (r0, r1, r2, r3) p = (dot4 r0 p, dot4 r1 p, dot4 r2 p, dot4 r3 p)"

text \<open>
  \<^verbatim>\<open>vtkMath::Distance2BetweenPoints\<close> takes two \<^verbatim>\<open>double[3]\<close>. The source passes it the
  four-element result of \<^verbatim>\<open>MultiplyDoublePoint\<close>, of which it reads the first three.
\<close>

fun first3 :: "vec4 \<Rightarrow> vec3" where
  "first3 (x, y, z, w) = (x, y, z)"

fun Distance2BetweenPoints :: "vec3 \<Rightarrow> vec3 \<Rightarrow> real" where
  "Distance2BetweenPoints (x0, x1, x2) (y0, y1, y2) =
     (x0 - y0) * (x0 - y0) + (x1 - y1) * (x1 - y1) + (x2 - y2) * (x2 - y2)"

datatype fault =
    OutOfRangeRead nat
  | UninitializedRead nat
  | NullMatrix
  | NullString
  | LibraryException

text \<open>A point container: slot \<open>i\<close> is \<open>Some p\<close> once a point was inserted at \<open>i\<close>.\<close>

type_synonym vtkPoints = "vec3 option list"

definition GetNumberOfPoints :: "vtkPoints \<Rightarrow> nat" where
  "GetNumberOfPoints ps = length ps"

definition Reset :: vtkPoints where
  "Reset = []"

definition InsertPoint :: "nat \<Rightarrow> vec3 \<Rightarrow> vtkPoints \<Rightarrow> vtkPoints" where
  "InsertPoint i p ps =
     (if i < length ps then ps[i := Some p]
      else ps @ replicate (i - length ps) None @ [Some p])"

text \<open>
  \<^verbatim>\<open>GetPoint(i)\<close> returns a pointer into the container's buffer and checks nothing: past
  the end, and at a slot never written, what the caller reads is not defined.
\<close>

definition GetPoint :: "vtkPoints \<Rightarrow> nat \<Rightarrow> fault + vec3" where
  "GetPoint ps i =
     (if i < length ps then
        (case ps ! i of Some p \<Rightarrow> Inr p | None \<Rightarrow> Inl (UninitializedRead i))
      else Inl (OutOfRangeRead i))"

text \<open>
  \<^verbatim>\<open>STRCASECMP\<close> is a macro from a header that is not among the source files; it
  stands for the C library's comparison of two strings without regard to ASCII case. The
  source uses only whether its result is zero: \<open>True\<close> stands for a non-zero result.
\<close>

definition tolower_c :: "char \<Rightarrow> char" where
  "tolower_c c =
     (let n = (of_char c :: nat) in if 65 \<le> n \<and> n \<le> 90 then char_of (n + 32) else c)"

definition STRCASECMP :: "string \<Rightarrow> string \<Rightarrow> bool" where
  "STRCASECMP a b = (map tolower_c a \<noteq> map tolower_c b)"

subsection \<open>The object\<close>

datatype PlusStatus = PLUS_FAIL | PLUS_SUCCESS

text \<open>
  The value of the \<^verbatim>\<open>double\<close> field \<^verbatim>\<open>RegistrationError\<close>. \<^verbatim>\<open>ComputeError\<close> divides by
  the number of recorded points; IEEE division by zero gives NaN for \<open>0.0 / 0\<close> and an
  infinity otherwise, where division of reals in HOL would give \<open>0\<close>.
\<close>

datatype dbl = Finite real | Infinity | NaN

definition div_by_count :: "real \<Rightarrow> nat \<Rightarrow> dbl" where
  "div_by_count s n =
     (if n = 0 then (if s = 0 then NaN else Infinity) else Finite (s / real n))"

record algo =
  RegistrationError :: dbl
  PhantomToReferenceTransformMatrix :: "mat4 option"
  DefinedLandmarks :: vtkPoints
  RecordedLandmarks :: vtkPoints
  DefinedLandmarkNames :: "string list"

text \<open>The constructor: error \<open>-1.0\<close>, no matrix, two empty point containers.\<close>

definition new_algo :: algo where
  "new_algo =
     \<lparr>RegistrationError = Finite (- 1), PhantomToReferenceTransformMatrix = None,
      DefinedLandmarks = [], RecordedLandmarks = [], DefinedLandmarkNames = []\<rparr>"

subsection \<open>ComputeError\<close>

text \<open>
  The loop of \<^verbatim>\<open>ComputeError\<close>, from index \<open>i\<close> with the running \<open>sumDistance\<close>. Its bound is
  the number of recorded points; the defined point is read first, then the matrix is
  dereferenced, then the recorded point is read.
\<close>

function sum_distances ::
  "vtkPoints \<Rightarrow> mat4 option \<Rightarrow> vtkPoints \<Rightarrow> nat \<Rightarrow> real \<Rightarrow> fault + real" where
  "sum_distances D M R i sumDistance =
     (if i < GetNumberOfPoints R then
        (case GetPoint D i of
           Inl e \<Rightarrow> Inl e
         | Inr landmarkPointArray \<Rightarrow>
             (case M of
                None \<Rightarrow> Inl NullMatrix
              | Some m \<Rightarrow>
                  (let landmarkPoint =
                         (get3 landmarkPointArray 0, get3 landmarkPointArray 1,
                          get3 landmarkPointArray 2, 1);
                       transformedLandmarkPoint = MultiplyDoublePoint m landmarkPoint
                   in case GetPoint R i of
                        Inl e \<Rightarrow> Inl e
                      | Inr recordedPointArray \<Rightarrow>
                          sum_distances D M R (Suc i)
                            (sumDistance +
                             sqrt (Distance2BetweenPoints (first3 transformedLandmarkPoint)
                                     recordedPointArray)))))
      else Inr sumDistance)"
  by pat_completeness auto
termination
  by (relation "measure (\<lambda>(D, M, R, i, s). GetNumberOfPoints R - i)") auto

declare sum_distances.simps [simp del]

definition ComputeError :: "algo \<Rightarrow> fault + (PlusStatus \<times> algo)" where
  "ComputeError this =
     (case sum_distances (DefinedLandmarks this) (PhantomToReferenceTransformMatrix this)
             (RecordedLandmarks this) 0 0 of
        Inl e \<Rightarrow> Inl e
      | Inr sumDistance \<Rightarrow>
          Inr (PLUS_SUCCESS,
               this\<lparr>RegistrationError :=
                      div_by_count sumDistance (GetNumberOfPoints (RecordedLandmarks this))\<rparr>))"

subsection \<open>Register\<close>

text \<open>
  The first loop of \<^verbatim>\<open>Register\<close>: for every index below the number of recorded points it
  reads the defined point, then the recorded point, and appends them to \<open>fixedPoints\<close> and
  \<open>movingPoints\<close>. The second loop of the source only logs the collected pairs.
\<close>

function collect_landmarks ::
  "vtkPoints \<Rightarrow> vtkPoints \<Rightarrow> nat \<Rightarrow> vec3 list \<Rightarrow> vec3 list \<Rightarrow> fault + (vec3 list \<times> vec3 list)"
  where
  "collect_landmarks D R i fixedPoints movingPoints =
     (if i < GetNumberOfPoints R then
        (case GetPoint D i of
           Inl e \<Rightarrow> Inl e
         | Inr fixedPoint \<Rightarrow>
             (case GetPoint R i of
                Inl e \<Rightarrow> Inl e
              | Inr movingPoint \<Rightarrow>
                  collect_landmarks D R (Suc i) (fixedPoints @ [fixedPoint])
                    (movingPoints @ [movingPoint])))
      else Inr (fixedPoints, movingPoints))"
  by pat_completeness auto
termination
  by (relation "measure (\<lambda>(D, R, i, f, m). GetNumberOfPoints R - i)") auto

declare collect_landmarks.simps [simp del]

text \<open>
  The solve itself is \<^verbatim>\<open>itk::LandmarkBasedTransformInitializer::InitializeTransform\<close> on an
  \<^verbatim>\<open>itk::Similarity3DTransform\<close>, a library that is not part of the repository. It is a
  parameter of the model: from the fixed (defined) and moving (recorded) points it gives
  the transform's 3x3 matrix and offset, or \<open>None\<close> when the call raises a C++ exception,
  which \<^verbatim>\<open>Register\<close> does not catch.
\<close>

type_synonym solver = "vec3 list \<Rightarrow> vec3 list \<Rightarrow> (mat3 \<times> vec3) option"

text \<open>
  The homogeneous matrix \<^verbatim>\<open>Register\<close> builds: the identity, then element \<open>(i, j)\<close> of the
  solver's matrix at \<open>(i, j)\<close> for \<open>i, j < 3\<close>, then component \<open>j\<close> of the offset at
  \<open>(j, 3)\<close>.
\<close>

definition assemble :: "mat3 \<Rightarrow> vec3 \<Rightarrow> mat4" where
  "assemble transformMatrix transformOffset =
     (let m0 = Identity;
          m1 = fold (\<lambda>i. fold (\<lambda>j. SetElement i j (get3 (get3 transformMatrix i) j)) [0..<3])
                 [0..<3] m0
      in fold (\<lambda>j. SetElement j 3 (get3 transformOffset j)) [0..<3] m1)"

definition Register :: "solver \<Rightarrow> algo \<Rightarrow> fault + (PlusStatus \<times> algo)" where
  "Register solve this =
     (case collect_landmarks (DefinedLandmarks this) (RecordedLandmarks this) 0 [] [] of
        Inl e \<Rightarrow> Inl e
      | Inr (fixedPoints, movingPoints) \<Rightarrow>
          (case solve fixedPoints movingPoints of
             None \<Rightarrow> Inl LibraryException
           | Some (transformMatrix, transformOffset) \<Rightarrow>
               (let this1 = this\<lparr>PhantomToReferenceTransformMatrix :=
                                   Some (assemble transformMatrix transformOffset)\<rparr>
                in case ComputeError this1 of
                     Inl e \<Rightarrow> Inl e
                   | Inr (status, this2) \<Rightarrow>
                       if status \<noteq> PLUS_SUCCESS then Inr (PLUS_FAIL, this2)
                       else Inr (PLUS_SUCCESS, this2))))"

subsection \<open>ReadConfiguration\<close>

text \<open>
  What \<^verbatim>\<open>ReadConfiguration\<close> sees of a nested element of \<^verbatim>\<open><Landmarks>\<close>: its tag
  (\<^verbatim>\<open>GetName\<close>), its \<^verbatim>\<open>Name\<close> attribute (\<^verbatim>\<open>GetAttribute\<close> returns a null pointer when the
  attribute is absent), and the outcome of \<^verbatim>\<open>GetVectorAttribute("Position", 3, p)\<close>: the
  number of values it parsed, and the contents of \<open>p\<close> afterwards.
\<close>

record xml_landmark =
  elem_name :: string
  attr_Name :: "string option"
  Position_count :: nat
  Position_value :: vec3

text \<open>
  The configuration tree, as far as the function walks it: each
  \<^verbatim>\<open>FindNestedElementWithName\<close> gives an element or a null pointer.
\<close>

record xml_geometry =
  Landmarks :: "xml_landmark list option"

record xml_phantom =
  Geometry :: "xml_geometry option"

record xml_config =
  PhantomDefinition :: "xml_phantom option"

definition GetNestedElement :: "xml_landmark list \<Rightarrow> nat \<Rightarrow> xml_landmark option" where
  "GetNestedElement es i = (if i < length es then Some (es ! i) else None)"

datatype log_msg = LOG_ERROR string | LOG_WARNING string

text \<open>
  The loop over the nested elements. The \<^verbatim>\<open>Name\<close> attribute is turned into a
  \<^verbatim>\<open>std::string\<close> before the position is looked at; constructing a \<^verbatim>\<open>std::string\<close> from a
  null pointer is not defined.
\<close>

function read_landmarks ::
  "xml_landmark list \<Rightarrow> nat \<Rightarrow> nat \<Rightarrow> algo \<Rightarrow> log_msg list \<Rightarrow> fault + (algo \<times> log_msg list)"
  where
  "read_landmarks landmarks i numberOfLandmarks this lg =
     (if i < numberOfLandmarks then
        (case GetNestedElement landmarks i of
           None \<Rightarrow>
             read_landmarks landmarks (Suc i) numberOfLandmarks this
               (lg @ [LOG_WARNING ''Invalid landmark definition found!''])
         | Some landmark \<Rightarrow>
             if STRCASECMP ''Landmark'' (elem_name landmark) then
               read_landmarks landmarks (Suc i) numberOfLandmarks this
                 (lg @ [LOG_WARNING ''Invalid landmark definition found!''])
             else
               (case attr_Name landmark of
                  None \<Rightarrow> Inl NullString
                | Some landmarkNameString \<Rightarrow>
                    if Position_count landmark = 0 then
                      read_landmarks landmarks (Suc i) numberOfLandmarks this
                        (lg @ [LOG_WARNING ''Invalid landmark position!''])
                    else
                      read_landmarks landmarks (Suc i) numberOfLandmarks
                        (this\<lparr>DefinedLandmarks :=
                                 InsertPoint i (Position_value landmark) (DefinedLandmarks this),
                               DefinedLandmarkNames :=
                                 (DefinedLandmarkNames this)[i := landmarkNameString]\<rparr>)
                        lg))
      else Inr (this, lg))"
  by pat_completeness auto
termination
  by (relation "measure (\<lambda>(ls, i, n, t, lg). n - i)") auto

declare read_landmarks.simps [simp del]

definition ReadConfiguration ::
  "xml_config option \<Rightarrow> algo \<Rightarrow> fault + (PlusStatus \<times> algo \<times> log_msg list)" where
  "ReadConfiguration aConfig this =
     (case aConfig of
        None \<Rightarrow>
          Inr (PLUS_FAIL, this,
               [LOG_ERROR ''Invalid configuration! Problably device set is not connected.''])
      | Some config \<Rightarrow>
          (case PhantomDefinition config of
             None \<Rightarrow>
               Inr (PLUS_FAIL, this, [LOG_ERROR ''No phantom definition is found in the XML tree!''])
           | Some phantomDefinition \<Rightarrow>
               (let this1 = this\<lparr>DefinedLandmarks := Reset, RecordedLandmarks := Reset,
                                  DefinedLandmarkNames := []\<rparr>
                in case Geometry phantomDefinition of
                     None \<Rightarrow>
                       Inr (PLUS_FAIL, this1, [LOG_ERROR ''Phantom geometry information not found!''])
                   | Some geometry \<Rightarrow>
                       (case Landmarks geometry of
                          None \<Rightarrow>
                            Inr (PLUS_FAIL, this1,
                                 [LOG_ERROR ''Landmarks not found, registration is not possible!''])
                        | Some landmarks \<Rightarrow>
                            (let numberOfLandmarks = length landmarks;
                                 this2 = this1\<lparr>DefinedLandmarkNames :=
                                                  replicate numberOfLandmarks []\<rparr>
                             in case read_landmarks landmarks 0 numberOfLandmarks this2 [] of
                                  Inl e \<Rightarrow> Inl e
                                | Inr (this3, lg) \<Rightarrow>
                                    (let lg1 =
                                           (if GetNumberOfPoints (DefinedLandmarks this3)
                                               \<noteq> numberOfLandmarks
                                            then lg @ [LOG_WARNING ''Some invalid landmarks were found!'']
                                            else lg)
                                     in if GetNumberOfPoints (DefinedLandmarks this3) = 0 then
                                          Inr (PLUS_FAIL, this3,
                                               lg1 @ [LOG_ERROR ''No valid landmarks were found!''])
                                        else Inr (PLUS_SUCCESS, this3, lg1)))))))"

subsection \<open>The spec's words, for comparison with the code\<close>

text \<open>
  Section 4.3 of the spec: apply the transform to \<open>defined[i]\<close> as a homogeneous point with
  fourth coordinate 1, take the Euclidean distance to \<open>recorded[i]\<close>, and average the
  distances over all \<open>n\<close> correspondences.
\<close>

fun apply_homogeneous :: "mat4 \<Rightarrow> vec3 \<Rightarrow> vec3" where
  "apply_homogeneous ((a00, a01, a02, a03), (a10, a11, a12, a13), (a20, a21, a22, a23), r3)
     (x, y, z) =
     (a00 * x + a01 * y + a02 * z + a03 * 1,
      a10 * x + a11 * y + a12 * z + a13 * 1,
      a20 * x + a21 * y + a22 * z + a23 * 1)"

fun euclidean_distance :: "vec3 \<Rightarrow> vec3 \<Rightarrow> real" where
  "euclidean_distance (p0, p1, p2) (q0, q1, q2) =
     sqrt ((p0 - q0)\<^sup>2 + (p1 - q1)\<^sup>2 + (p2 - q2)\<^sup>2)"

definition residual :: "mat4 \<Rightarrow> vec3 list \<Rightarrow> vec3 list \<Rightarrow> nat \<Rightarrow> real" where
  "residual T defined recorded i =
     euclidean_distance (apply_homogeneous T (defined ! i)) (recorded ! i)"

definition mean_distance :: "mat4 \<Rightarrow> vec3 list \<Rightarrow> vec3 list \<Rightarrow> real" where
  "mean_distance T defined recorded =
     (\<Sum>i\<leftarrow>[0..<length recorded]. residual T defined recorded i) / real (length recorded)"

text \<open>The root-mean-square of the same distances, which the spec sets the mean against.\<close>

definition rms_distance :: "mat4 \<Rightarrow> vec3 list \<Rightarrow> vec3 list \<Rightarrow> real" where
  "rms_distance T defined recorded =
     sqrt ((\<Sum>i\<leftarrow>[0..<length recorded]. (residual T defined recorded i)\<^sup>2)
           / real (length recorded))"

text \<open>
  The homogeneous matrix of the spec's data model for a 3x3 block \<open>A\<close> (scale times
  rotation) and a translation \<open>t\<close>: \<open>A\<close> in the upper left, \<open>t\<close> in the last column, and
  \<open>(0, 0, 0, 1)\<close> as last row.
\<close>

fun homogeneous :: "mat3 \<Rightarrow> vec3 \<Rightarrow> mat4" where
  "homogeneous ((a00, a01, a02), (a10, a11, a12), (a20, a21, a22)) (t0, t1, t2) =
     ((a00, a01, a02, t0), (a10, a11, a12, t1), (a20, a21, a22, t2), (0, 0, 0, 1))"

text \<open>
  The tests of the loop in \<^verbatim>\<open>ReadConfiguration\<close> that an entry passes to be stored: its
  tag is \<^verbatim>\<open>Landmark\<close> up to case, and at least one value of its position was parsed.
\<close>

definition accepted :: "xml_landmark \<Rightarrow> bool" where
  "accepted l = (\<not> STRCASECMP ''Landmark'' (elem_name l) \<and> Position_count l \<noteq> 0)"

text \<open>An entry the loop can process: one with the tag \<^verbatim>\<open>Landmark\<close> carries a name.\<close>

definition named :: "xml_landmark \<Rightarrow> bool" where
  "named l = (STRCASECMP ''Landmark'' (elem_name l) \<or> attr_Name l \<noteq> None)"

text \<open>Three or more points on one line through the first two: every cross product vanishes.\<close>

fun minus3 :: "vec3 \<Rightarrow> vec3 \<Rightarrow> vec3" where
  "minus3 (x0, x1, x2) (y0, y1, y2) = (x0 - y0, x1 - y1, x2 - y2)"

fun cross3 :: "vec3 \<Rightarrow> vec3 \<Rightarrow> vec3" where
  "cross3 (x0, x1, x2) (y0, y1, y2) = (x1 * y2 - x2 * y1, x2 * y0 - x0 * y2, x0 * y1 - x1 * y0)"

fun collinear_points :: "vec3 list \<Rightarrow> bool" where
  "collinear_points (p # q # ps) =
     list_all (\<lambda>r. cross3 (minus3 q p) (minus3 r p) = (0, 0, 0)) ps"
| "collinear_points ps = True"

subsection \<open>Auxiliary definitions\<close>

text \<open>
  A library call that returns the given matrix and offset whatever the points are. It
  instantiates the solver parameter where \<^verbatim>\<open>Register\<close> is evaluated on concrete inputs,
  each time with a transform that maps the defined points of that input exactly onto the
  recorded ones; the general statements quantify over every solver.
\<close>

definition fixed_answer :: "mat3 \<times> vec3 \<Rightarrow> solver" where
  "fixed_answer answer fixedPoints movingPoints = Some answer"

definition identity3 :: mat3 where
  "identity3 = ((1, 0, 0), (0, 1, 0), (0, 0, 1))"

text \<open>
  The body of the loop of \<^verbatim>\<open>ReadConfiguration\<close> over a list of entries that all pass the
  \<^verbatim>\<open>Name\<close> lookup, by recursion over the entries from index \<open>i\<close> on. It is related
  to \<open>read_landmarks\<close> by lemma \<open>read_landmarks_scan\<close> and serves the proofs only.
\<close>

fun scan_entries ::
  "nat \<Rightarrow> xml_landmark list \<Rightarrow> algo \<Rightarrow> log_msg list \<Rightarrow> algo \<times> log_msg list" where
  "scan_entries i [] this lg = (this, lg)"
| "scan_entries i (l # ls) this lg =
     (if STRCASECMP ''Landmark'' (elem_name l) then
        scan_entries (Suc i) ls this (lg @ [LOG_WARNING ''Invalid landmark definition found!''])
      else if Position_count l = 0 then
        scan_entries (Suc i) ls this (lg @ [LOG_WARNING ''Invalid landmark position!''])
      else
        scan_entries (Suc i) ls
          (this\<lparr>DefinedLandmarks := InsertPoint i (Position_value l) (DefinedLandmarks this),
                 DefinedLandmarkNames := (DefinedLandmarkNames this)[i := the (attr_Name l)]\<rparr>)
          lg)"

text \<open>The two warnings the loop logs when it skips an entry.\<close>

definition skip_warning :: "log_msg \<Rightarrow> bool" where
  "skip_warning m =
     (m = LOG_WARNING ''Invalid landmark definition found!''
      \<or> m = LOG_WARNING ''Invalid landmark position!'')"

section \<open>Properties\<close>

subsection \<open>The loops in closed form\<close>

lemma assemble_homogeneous: "assemble A t = homogeneous A t"
proof -
  obtain r0 r1 r2 where A: "A = (r0, r1, r2)" by (cases A)
  obtain a00 a01 a02 where r0: "r0 = (a00, a01, a02)" by (cases r0)
  obtain a10 a11 a12 where r1: "r1 = (a10, a11, a12)" by (cases r1)
  obtain a20 a21 a22 where r2: "r2 = (a20, a21, a22)" by (cases r2)
  obtain t0 t1 t2 where t: "t = (t0, t1, t2)" by (cases t)
  have upt3: "[0..<3] = [0, 1, 2::nat]" by (simp add: upt_rec)
  show ?thesis
    unfolding A r0 r1 r2 t assemble_def upt3
    by (simp add: Identity_def SetElement_def)
qed

text \<open>One iteration of the loop of \<^verbatim>\<open>ComputeError\<close> adds the Euclidean distance of the spec.\<close>

lemma step_distance:
  "sqrt (Distance2BetweenPoints
           (first3 (MultiplyDoublePoint m (get3 p 0, get3 p 1, get3 p 2, 1))) r)
   = euclidean_distance (apply_homogeneous m p) r"
proof -
  obtain r0 r1 r2 r3 where m: "m = (r0, r1, r2, r3)" by (cases m)
  obtain a00 a01 a02 a03 where r0: "r0 = (a00, a01, a02, a03)" by (cases r0)
  obtain a10 a11 a12 a13 where r1: "r1 = (a10, a11, a12, a13)" by (cases r1)
  obtain a20 a21 a22 a23 where r2: "r2 = (a20, a21, a22, a23)" by (cases r2)
  obtain x y z where p: "p = (x, y, z)" by (cases p)
  obtain q0 q1 q2 where r: "r = (q0, q1, q2)" by (cases r)
  show ?thesis
    unfolding m r0 r1 r2 p r by (simp add: power2_eq_square)
qed

lemma GetPoint_Some_append:
  "i < length ps \<Longrightarrow> GetPoint (map Some ps @ ex) i = Inr (ps ! i)"
  by (simp add: GetPoint_def nth_append)


lemma sum_distances_in_range:
  assumes "length ds = length rs" and "i \<le> length rs"
  shows "sum_distances (map Some ds @ ex) (Some m) (map Some rs) i s
         = Inr (s + (\<Sum>k\<leftarrow>[i..<length rs]. residual m ds rs k))"
  using assms
proof (induction "length rs - i" arbitrary: i s)
  case 0
  then show ?case
    by (subst sum_distances.simps) (simp add: GetNumberOfPoints_def)
next
  case (Suc k)
  then have lt: "i < length rs" and k: "k = length rs - Suc i" by simp_all
  have nxt: "sum_distances (map Some ds @ ex) (Some m) (map Some rs) (Suc i)
               (s + residual m ds rs i)
             = Inr (s + residual m ds rs i + (\<Sum>k\<leftarrow>[Suc i..<length rs]. residual m ds rs k))"
    using Suc.hyps(1) [OF k Suc.prems(1)] lt by simp
  have rd: "GetPoint (map Some rs) i = Inr (rs ! i)"
    using GetPoint_Some_append [of i rs "[]"] lt by simp
  have dd: "GetPoint (map Some ds @ ex) i = Inr (ds ! i)"
    using GetPoint_Some_append [of i ds ex] lt Suc.prems(1) by simp
  show ?case
    apply (subst sum_distances.simps)
    using lt nxt
    by (simp add: GetNumberOfPoints_def rd dd step_distance residual_def [symmetric]
          upt_conv_Cons Let_def add.assoc del: One_nat_def)
qed

lemma collect_landmarks_in_range:
  assumes "length ds = length rs" and "i \<le> length rs"
  shows "collect_landmarks (map Some ds @ ex) (map Some rs) i fs ms
         = Inr (fs @ drop i ds, ms @ drop i rs)"
  using assms
proof (induction "length rs - i" arbitrary: i fs ms)
  case 0
  then show ?case
    by (subst collect_landmarks.simps) (simp add: GetNumberOfPoints_def)
next
  case (Suc k)
  then have lt: "i < length rs" and k: "k = length rs - Suc i" by simp_all
  have nxt: "collect_landmarks (map Some ds @ ex) (map Some rs) (Suc i)
               (fs @ [ds ! i]) (ms @ [rs ! i])
             = Inr ((fs @ [ds ! i]) @ drop (Suc i) ds, (ms @ [rs ! i]) @ drop (Suc i) rs)"
    using Suc.hyps(1) [OF k Suc.prems(1)] lt by simp
  have rd: "GetPoint (map Some rs) i = Inr (rs ! i)"
    using GetPoint_Some_append [of i rs "[]"] lt by simp
  have dd: "GetPoint (map Some ds @ ex) i = Inr (ds ! i)"
    using GetPoint_Some_append [of i ds ex] lt Suc.prems(1) by simp
  show ?case
    apply (subst collect_landmarks.simps)
    using lt nxt Suc.prems(1)
    by (simp add: GetNumberOfPoints_def rd dd Cons_nth_drop_Suc)
qed

lemma sum_distances_empty: "sum_distances D M [] 0 0 = Inr 0"
  by (subst sum_distances.simps) (simp add: GetNumberOfPoints_def)

lemma ComputeError_in_range:
  assumes D: "DefinedLandmarks this = map Some ds @ ex"
    and R: "RecordedLandmarks this = map Some rs"
    and len: "length ds = length rs"
    and M: "PhantomToReferenceTransformMatrix this = Some T"
  shows "ComputeError this =
           Inr (PLUS_SUCCESS,
                this\<lparr>RegistrationError :=
                  div_by_count (\<Sum>k\<leftarrow>[0..<length rs]. residual T ds rs k) (length rs)\<rparr>)"
  using sum_distances_in_range [OF len, of 0 ex T 0]
  by (simp add: ComputeError_def D R M GetNumberOfPoints_def)

subsection \<open>ComputeError and Register on well-formed stores\<close>

text \<open>\<^verbatim>\<open>ComputeError\<close> has one return statement, and \<^verbatim>\<open>Register\<close> fails only when \<^verbatim>\<open>ComputeError\<close> does.\<close>

lemma ComputeError_status:
  "ComputeError this = Inr (status, this') \<Longrightarrow> status = PLUS_SUCCESS"
  by (auto simp: ComputeError_def split: sum.splits)

lemma Register_never_PLUS_FAIL: "Register solve this \<noteq> Inr (PLUS_FAIL, this')"
  by (auto simp: Register_def Let_def split: sum.splits option.splits prod.splits
      dest: ComputeError_status)

lemma Register_in_range:
  assumes D: "DefinedLandmarks this = map Some ds @ ex"
    and R: "RecordedLandmarks this = map Some rs"
    and len: "length ds = length rs"
    and S: "solve ds rs = Some (A, t)"
  shows "Register solve this =
           Inr (PLUS_SUCCESS,
                this\<lparr>PhantomToReferenceTransformMatrix := Some (homogeneous A t),
                     RegistrationError :=
                       div_by_count (\<Sum>k\<leftarrow>[0..<length rs]. residual (homogeneous A t) ds rs k)
                         (length rs)\<rparr>)"
proof -
  let ?this1 = "this\<lparr>PhantomToReferenceTransformMatrix := Some (homogeneous A t)\<rparr>"
  have c: "collect_landmarks (DefinedLandmarks this) (RecordedLandmarks this) 0 [] [] = Inr (ds, rs)"
    using collect_landmarks_in_range [OF len, of 0 ex "[]" "[]"] by (simp add: D R)
  have e: "ComputeError ?this1 =
             Inr (PLUS_SUCCESS,
                  ?this1\<lparr>RegistrationError :=
                    div_by_count (\<Sum>k\<leftarrow>[0..<length rs]. residual (homogeneous A t) ds rs k)
                      (length rs)\<rparr>)"
    by (rule ComputeError_in_range [OF _ _ len]) (simp_all add: D R)
  show ?thesis
    by (simp add: Register_def c S assemble_homogeneous e)
qed

subsection \<open>Reads past the end of the defined landmarks\<close>



lemma div_by_count_pos: "0 < n \<Longrightarrow> div_by_count s n = Finite (s / real n)"
  by (simp add: div_by_count_def)

lemma Register_solver_result:
  assumes D: "DefinedLandmarks this = map Some ds @ ex"
    and R: "RecordedLandmarks this = map Some rs"
    and len: "length ds = length rs"
  shows "Register solve this =
           (case solve ds rs of
              None \<Rightarrow> Inl LibraryException
            | Some (A, t) \<Rightarrow>
                Inr (PLUS_SUCCESS,
                     this\<lparr>PhantomToReferenceTransformMatrix := Some (homogeneous A t),
                          RegistrationError :=
                            div_by_count
                              (\<Sum>k\<leftarrow>[0..<length rs]. residual (homogeneous A t) ds rs k)
                              (length rs)\<rparr>))"
proof (cases "solve ds rs")
  case None
  have c: "collect_landmarks (DefinedLandmarks this) (RecordedLandmarks this) 0 [] [] = Inr (ds, rs)"
    using collect_landmarks_in_range [OF len, of 0 ex "[]" "[]"] by (simp add: D R)
  show ?thesis
    by (simp add: Register_def c None)
next
  case (Some a)
  obtain A t where a: "a = (A, t)" by (cases a)
  show ?thesis
    using Register_in_range [OF D R len, of solve A t] Some a by simp
qed

subsection \<open>The loop of ReadConfiguration\<close>

lemma InsertPoint_length: "length (InsertPoint i p D) = max (length D) (Suc i)"
  by (simp add: InsertPoint_def)

lemma InsertPoint_same: "InsertPoint i p D ! i = Some p"
  by (simp add: InsertPoint_def nth_append)

lemma InsertPoint_other: "k \<noteq> i \<Longrightarrow> k < length D \<Longrightarrow> InsertPoint i p D ! k = D ! k"
  by (simp add: InsertPoint_def nth_append)

lemma tag_Landmark: "\<not> STRCASECMP ''Landmark'' ''Landmark''"
  by (simp add: STRCASECMP_def)

lemma tag_landmark_lower: "\<not> STRCASECMP ''Landmark'' ''landmark''"
  by code_simp

lemma tag_NWire: "STRCASECMP ''Landmark'' ''NWire''"
  by code_simp

lemma read_landmarks_scan:
  assumes "\<forall>l\<in>set (drop i ls). named l" and "i \<le> length ls"
  shows "read_landmarks ls i (length ls) this lg = Inr (scan_entries i (drop i ls) this lg)"
  using assms
proof (induction "length ls - i" arbitrary: i this lg)
  case 0
  then show ?case
    by (subst read_landmarks.simps) simp
next
  case (Suc k)
  then have lt: "i < length ls" and k: "k = length ls - Suc i" by simp_all
  have dr: "drop i ls = ls ! i # drop (Suc i) ls"
    using lt by (simp add: Cons_nth_drop_Suc)
  have nm: "named (ls ! i)" and rest: "\<forall>l\<in>set (drop (Suc i) ls). named l"
    using Suc.prems(1) by (simp_all add: dr)
  have le: "Suc i \<le> length ls"
    using lt by simp
  note IH = Suc.hyps(1) [OF k rest le]
  show ?case
    apply (subst read_landmarks.simps)
    using lt nm
    by (auto simp: dr GetNestedElement_def IH named_def)
qed

lemma scan_length_mono:
  "length (DefinedLandmarks this) \<le> length (DefinedLandmarks (fst (scan_entries i es this lg)))"
proof (induction es arbitrary: i this lg)
  case Nil
  show ?case by simp
next
  case (Cons l es)
  have "length (DefinedLandmarks this)
        \<le> length (InsertPoint i (Position_value l) (DefinedLandmarks this))"
    by (simp add: InsertPoint_length)
  then show ?case
    using Cons [of this] Cons [of "this\<lparr>DefinedLandmarks :=
        InsertPoint i (Position_value l) (DefinedLandmarks this),
        DefinedLandmarkNames := (DefinedLandmarkNames this)[i := the (attr_Name l)]\<rparr>" "Suc i" lg]
    by (auto intro: order_trans)
qed

lemma scan_no_accepted:
  "\<forall>l\<in>set es. \<not> accepted l \<Longrightarrow>
   DefinedLandmarks (fst (scan_entries i es this lg)) = DefinedLandmarks this"
  by (induction es arbitrary: i this lg) (auto simp: accepted_def)

lemma scan_some_accepted:
  "\<exists>l\<in>set es. accepted l \<Longrightarrow> 0 < length (DefinedLandmarks (fst (scan_entries i es this lg)))"
proof (induction es arbitrary: i this lg)
  case Nil
  then show ?case by simp
next
  case (Cons l es)
  show ?case
  proof (cases "accepted l")
    case True
    let ?this1 = "this\<lparr>DefinedLandmarks :=
        InsertPoint i (Position_value l) (DefinedLandmarks this),
        DefinedLandmarkNames := (DefinedLandmarkNames this)[i := the (attr_Name l)]\<rparr>"
    have "0 < length (DefinedLandmarks ?this1)"
      by (simp add: InsertPoint_length)
    then have "0 < length (DefinedLandmarks (fst (scan_entries (Suc i) es ?this1 lg)))"
      using scan_length_mono [of ?this1 "Suc i" es lg] by linarith
    then show ?thesis
      using True by (simp add: accepted_def)
  next
    case False
    then have "\<exists>l\<in>set es. accepted l"
      using Cons.prems by auto
    then show ?thesis
      using Cons.IH False by (auto simp: accepted_def)
  qed
qed

lemma scan_keeps_slot:
  "k < i \<Longrightarrow> k < length (DefinedLandmarks this) \<Longrightarrow>
   DefinedLandmarks (fst (scan_entries i es this lg)) ! k = DefinedLandmarks this ! k"
proof (induction es arbitrary: i this lg)
  case Nil
  show ?case by simp
next
  case (Cons l es)
  let ?this1 = "this\<lparr>DefinedLandmarks :=
      InsertPoint i (Position_value l) (DefinedLandmarks this),
      DefinedLandmarkNames := (DefinedLandmarkNames this)[i := the (attr_Name l)]\<rparr>"
  have a: "k < Suc i" using Cons.prems(1) by simp
  have b: "k < length (DefinedLandmarks ?this1)"
    using Cons.prems(2) by (simp add: InsertPoint_length)
  have c: "DefinedLandmarks ?this1 ! k = DefinedLandmarks this ! k"
    using Cons.prems by (simp add: InsertPoint_other)
  show ?case
    using Cons.IH [OF a Cons.prems(2)] Cons.IH [OF a b] c by simp
qed

lemma scan_keeps_name:
  "k < i \<Longrightarrow>
   DefinedLandmarkNames (fst (scan_entries i es this lg)) ! k = DefinedLandmarkNames this ! k"
  by (induction es arbitrary: i this lg) simp_all

lemma scan_names_length:
  "length (DefinedLandmarkNames (fst (scan_entries i es this lg)))
   = length (DefinedLandmarkNames this)"
  by (induction es arbitrary: i this lg) simp_all

lemma scan_slot:
  "j < length es \<Longrightarrow> accepted (es ! j) \<Longrightarrow>
   GetPoint (DefinedLandmarks (fst (scan_entries i es this lg))) (i + j)
   = Inr (Position_value (es ! j))"
proof (induction es arbitrary: i j this lg)
  case Nil
  then show ?case by simp
next
  case (Cons l es)
  let ?this1 = "this\<lparr>DefinedLandmarks :=
      InsertPoint i (Position_value l) (DefinedLandmarks this),
      DefinedLandmarkNames := (DefinedLandmarkNames this)[i := the (attr_Name l)]\<rparr>"
  show ?case
  proof (cases j)
    case 0
    then have acc: "accepted l" using Cons.prems(2) by simp
    let ?D = "DefinedLandmarks (fst (scan_entries (Suc i) es ?this1 lg))"
    have len1: "i < length (DefinedLandmarks ?this1)"
      by (simp add: InsertPoint_length)
    have "?D ! i = DefinedLandmarks ?this1 ! i"
      by (rule scan_keeps_slot [OF _ len1]) simp
    then have slot: "?D ! i = Some (Position_value l)"
      by (simp add: InsertPoint_same)
    have "i < length ?D"
      using scan_length_mono [of ?this1 "Suc i" es lg] len1 by linarith
    then have "GetPoint ?D i = Inr (Position_value l)"
      by (simp add: GetPoint_def slot)
    then show ?thesis
      using acc 0 by (simp add: accepted_def)
  next
    case (Suc j')
    then have j': "j' < length es" and acc: "accepted (es ! j')"
      using Cons.prems by simp_all
    show ?thesis
      using Cons.IH [OF j' acc, of "Suc i"] Suc by simp
  qed
qed

lemma scan_name:
  "j < length es \<Longrightarrow> accepted (es ! j) \<Longrightarrow> i + j < length (DefinedLandmarkNames this) \<Longrightarrow>
   DefinedLandmarkNames (fst (scan_entries i es this lg)) ! (i + j) = the (attr_Name (es ! j))"
proof (induction es arbitrary: i j this lg)
  case Nil
  then show ?case by simp
next
  case (Cons l es)
  show ?case
  proof (cases j)
    case 0
    then have acc: "accepted l" using Cons.prems(2) by simp
    show ?thesis
      using acc 0 Cons.prems(3) by (simp add: accepted_def scan_keeps_name)
  next
    case (Suc j')
    then have j': "j' < length es" and acc: "accepted (es ! j')"
      using Cons.prems by simp_all
    show ?thesis
      using Cons.IH [OF j' acc, of "Suc i"] Suc Cons.prems(3) by simp
  qed
qed

lemma scan_warnings:
  "length (filter skip_warning (snd (scan_entries i es this lg)))
   = length (filter skip_warning lg) + length (filter (\<lambda>l. \<not> accepted l) es)"
  by (induction es arbitrary: i this lg) (simp_all add: accepted_def skip_warning_def)

text \<open>\<^verbatim>\<open>ReadConfiguration\<close> on a tree that has the three enclosing elements.\<close>

lemma ReadConfiguration_scan:
  assumes nm: "\<forall>l\<in>set ls. named l"
  shows "ReadConfiguration
           (Some \<lparr>PhantomDefinition = Some \<lparr>Geometry = Some \<lparr>Landmarks = Some ls\<rparr>\<rparr>\<rparr>) this
         = (let this2 = this\<lparr>DefinedLandmarks := [], RecordedLandmarks := [],
                             DefinedLandmarkNames := replicate (length ls) []\<rparr>;
                this3 = fst (scan_entries 0 ls this2 []);
                lg = snd (scan_entries 0 ls this2 []);
                lg1 = (if length (DefinedLandmarks this3) \<noteq> length ls
                       then lg @ [LOG_WARNING ''Some invalid landmarks were found!''] else lg)
            in if length (DefinedLandmarks this3) = 0
               then Inr (PLUS_FAIL, this3, lg1 @ [LOG_ERROR ''No valid landmarks were found!''])
               else Inr (PLUS_SUCCESS, this3, lg1))"
proof -
  have "read_landmarks ls 0 (length ls) this2 [] = Inr (scan_entries 0 ls this2 [])" for this2
    using read_landmarks_scan [of 0 ls this2 "[]"] nm by simp
  then show ?thesis
    by (simp add: ReadConfiguration_def Reset_def GetNumberOfPoints_def Let_def
        split: prod.splits)
qed


subsection \<open>No read past the end when enough defined landmarks are held\<close>






subsection \<open>A transform that fits exactly\<close>

lemma euclidean_distance_same: "euclidean_distance p p = 0"
  by (cases p) simp

lemma sum_list_all_zero:
  "(\<And>x. x \<in> set xs \<Longrightarrow> f x = (0::real)) \<Longrightarrow> sum_list (map f xs) = 0"
  by (induction xs) simp_all

text \<open>
  When the stored transform maps every defined point onto its recorded point, the mean
  residual is zero.
\<close>

lemma exact_transform_zero_mean:
  assumes "\<forall>i<length recorded. recorded ! i = apply_homogeneous T (defined ! i)"
  shows "mean_distance T defined recorded = 0"
proof -
  have "residual T defined recorded i = 0" if "i \<in> set [0..<length recorded]" for i
    using that assms by (simp add: residual_def euclidean_distance_same)
  then have "(\<Sum>i\<leftarrow>[0..<length recorded]. residual T defined recorded i) = 0"
    by (rule sum_list_all_zero)
  then show ?thesis
    by (simp add: mean_distance_def)
qed

subsection \<open>Evaluation helpers\<close>

lemma sqrt_9: "sqrt 9 = 3"
  by (rule real_sqrt_unique) simp_all

lemma sqrt_25: "sqrt 25 = 5"
  by (rule real_sqrt_unique) simp_all

lemma upt_2: "[0..<2] = [0, 1]"
  by (simp add: upt_rec)

lemma upt_3: "[0..<3] = [0, 1, 2]"
  by (simp add: upt_rec)

text \<open>
  With at least one recorded point, each paired with a defined point, and a solver call
  that returns, \<^verbatim>\<open>Register\<close> stores the transform and the mean residual and succeeds.
\<close>

lemma Register_publishes:
  assumes D: "DefinedLandmarks this = map Some ds @ ex"
    and R: "RecordedLandmarks this = map Some rs"
    and len: "length ds = length rs"
    and pos: "0 < length rs"
    and S: "solve ds rs = Some (A, t)"
  shows "Register solve this =
           Inr (PLUS_SUCCESS,
                this\<lparr>PhantomToReferenceTransformMatrix := Some (homogeneous A t),
                     RegistrationError := Finite (mean_distance (homogeneous A t) ds rs)\<rparr>)"
  using Register_in_range [where solve = solve, OF D R len S]
  by (simp add: mean_distance_def div_by_count_pos [OF pos])

text \<open>The equations that evaluate \<^verbatim>\<open>Register\<close> on a concrete object.\<close>

lemmas run_simps =
  Register_def ComputeError_def collect_landmarks.simps sum_distances.simps GetPoint_def
  GetNumberOfPoints_def fixed_answer_def identity3_def assemble_def Identity_def SetElement_def
  div_by_count_def upt_3 Let_def

section \<open>The claims\<close>

subsection \<open>C2: the error is the arithmetic mean of the distances\<close>

text \<open>
  Claim C2. For every correspondence set of \<open>n \<ge> 1\<close> points and every stored transform
  \<open>T\<close>, \<^verbatim>\<open>ComputeError\<close> returns success and sets the registration error to the
  arithmetic mean, over all \<open>n\<close> correspondences, of the Euclidean distance between \<open>T\<close>
  applied to \<open>defined[i]\<close> (as a homogeneous point with fourth coordinate 1) and
  \<open>recorded[i]\<close>; nothing else of the object changes.
\<close>

theorem ComputeError_arithmetic_mean:
  assumes "DefinedLandmarks this = map Some defined"
    and "RecordedLandmarks this = map Some recorded"
    and "length defined = length recorded"
    and "1 \<le> length recorded"
    and "PhantomToReferenceTransformMatrix this = Some T"
  shows "ComputeError this =
           Inr (PLUS_SUCCESS,
                this\<lparr>RegistrationError := Finite (mean_distance T defined recorded)\<rparr>)"
proof -
  have pos: "0 < length recorded"
    using assms(4) by (cases recorded) simp_all
  show ?thesis
    using ComputeError_in_range [of this defined "[]" recorded T] assms(1,2,3,5)
    by (simp add: mean_distance_def div_by_count_pos [OF pos])
qed

theorem ComputeError_arithmetic_mean_witness:
  "ComputeError
     \<lparr>RegistrationError = Finite (- 1), PhantomToReferenceTransformMatrix = Some Identity,
      DefinedLandmarks = [Some (0, 0, 0), Some (1, 0, 0)],
      RecordedLandmarks = [Some (3, 4, 0), Some (1, 0, 3)],
      DefinedLandmarkNames = []\<rparr>
   = Inr (PLUS_SUCCESS,
          \<lparr>RegistrationError = Finite 4, PhantomToReferenceTransformMatrix = Some Identity,
           DefinedLandmarks = [Some (0, 0, 0), Some (1, 0, 0)],
           RecordedLandmarks = [Some (3, 4, 0), Some (1, 0, 3)],
           DefinedLandmarkNames = []\<rparr>)"
  using ComputeError_arithmetic_mean
    [of "\<lparr>RegistrationError = Finite (- 1), PhantomToReferenceTransformMatrix = Some Identity,
           DefinedLandmarks = [Some (0, 0, 0), Some (1, 0, 0)],
           RecordedLandmarks = [Some (3, 4, 0), Some (1, 0, 3)],
           DefinedLandmarkNames = []\<rparr>"
        "[(0, 0, 0), (1, 0, 0)]" "[(3, 4, 0), (1, 0, 3)]" Identity]
  by (simp add: mean_distance_def residual_def Identity_def upt_2 sqrt_9 sqrt_25)

text \<open>
  On the input of the witness the distances are 5 and 3: their mean is 4, their
  root-mean-square is the square root of 17.
\<close>

lemma mean_differs_from_rms:
  "mean_distance Identity [(0, 0, 0), (1, 0, 0)] [(3, 4, 0), (1, 0, 3)] = 4
   \<and> rms_distance Identity [(0, 0, 0), (1, 0, 0)] [(3, 4, 0), (1, 0, 3)] = sqrt 17"
  by (simp add: mean_distance_def rms_distance_def residual_def Identity_def upt_2 sqrt_9 sqrt_25)

subsection \<open>C7: no correspondences\<close>

text \<open>
  Claim C7 asks \<^verbatim>\<open>ComputeError\<close> to fail on an empty correspondence set. On a freshly
  constructed object (no recorded landmark) the loop does not run, the sum \<open>0.0\<close> is
  divided by the count \<open>0\<close>, the result (NaN) is stored as the registration error and
  the function returns success.
\<close>

theorem ComputeError_empty_recorded:
  "ComputeError new_algo = Inr (PLUS_SUCCESS, new_algo\<lparr>RegistrationError := NaN\<rparr>)"
  by (simp add: ComputeError_def new_algo_def sum_distances_empty div_by_count_def
      GetNumberOfPoints_def)

subsection \<open>C10: the defined landmarks are read up to the number of recorded ones\<close>



subsection \<open>C4: fewer than three correspondences\<close>

text \<open>
  Claim C4, as the code has it. \<^verbatim>\<open>Register\<close> checks no minimum number of landmarks. For
  one or two correspondences, each recorded point paired with a defined point, it passes
  the points to the solver and, when the library call returns, stores the solver's matrix
  and offset as the homogeneous transform, stores the mean residual as the registration
  error and returns success.
\<close>

theorem Register_one_or_two_landmarks:
  assumes D: "DefinedLandmarks this = map Some defined"
    and R: "RecordedLandmarks this = map Some recorded"
    and len: "length defined = length recorded"
    and n: "1 \<le> length recorded" "length recorded < 3"
    and S: "solve defined recorded = Some (A, t)"
  shows "Register solve this =
           Inr (PLUS_SUCCESS,
                this\<lparr>PhantomToReferenceTransformMatrix := Some (homogeneous A t),
                     RegistrationError :=
                       Finite (mean_distance (homogeneous A t) defined recorded)\<rparr>)"
proof -
  have pos: "0 < length recorded"
    using n(1) by (cases recorded) simp_all
  show ?thesis
    by (rule Register_publishes [where solve = solve and ex = "[]", OF _ R len pos S])
      (simp add: D)
qed

theorem Register_one_or_two_landmarks_witness:
  "Register (fixed_answer (identity3, (5, 0, 0)))
     \<lparr>RegistrationError = Finite (- 1), PhantomToReferenceTransformMatrix = None,
      DefinedLandmarks = [Some (1, 2, 3)],
      RecordedLandmarks = [Some (6, 2, 3)],
      DefinedLandmarkNames = []\<rparr>
   = Inr (PLUS_SUCCESS,
          \<lparr>RegistrationError = Finite 0,
           PhantomToReferenceTransformMatrix =
             Some ((1, 0, 0, 5), (0, 1, 0, 0), (0, 0, 1, 0), (0, 0, 0, 1)),
           DefinedLandmarks = [Some (1, 2, 3)],
           RecordedLandmarks = [Some (6, 2, 3)],
           DefinedLandmarkNames = []\<rparr>)"
  using Register_one_or_two_landmarks
    [of "\<lparr>RegistrationError = Finite (- 1), PhantomToReferenceTransformMatrix = None,
           DefinedLandmarks = [Some (1, 2, 3)],
           RecordedLandmarks = [Some (6, 2, 3)],
           DefinedLandmarkNames = []\<rparr>"
        "[(1, 2, 3)]" "[(6, 2, 3)]"
        "fixed_answer (identity3, (5, 0, 0))" identity3 "(5, 0, 0)"]
  by (simp add: fixed_answer_def identity3_def mean_distance_def residual_def)

text \<open>
  The claim as stated fails at two correspondences: \<^verbatim>\<open>Register\<close> runs the solver, stores its
  answer and the error, and returns success.
\<close>

theorem Register_two_landmarks_succeeds:
  "Register (fixed_answer (identity3, (5, 0, 0)))
     \<lparr>RegistrationError = Finite (- 1), PhantomToReferenceTransformMatrix = None,
      DefinedLandmarks = [Some (0, 0, 0), Some (1, 0, 0)],
      RecordedLandmarks = [Some (5, 0, 0), Some (6, 0, 0)],
      DefinedLandmarkNames = []\<rparr>
   = Inr (PLUS_SUCCESS,
          \<lparr>RegistrationError = Finite 0,
           PhantomToReferenceTransformMatrix =
             Some ((1, 0, 0, 5), (0, 1, 0, 0), (0, 0, 1, 0), (0, 0, 0, 1)),
           DefinedLandmarks = [Some (0, 0, 0), Some (1, 0, 0)],
           RecordedLandmarks = [Some (5, 0, 0), Some (6, 0, 0)],
           DefinedLandmarkNames = []\<rparr>)"
  by (simp add: run_simps)

subsection \<open>C5: different numbers of defined and recorded landmarks\<close>

text \<open>
  Claim C5, as the code has it. \<^verbatim>\<open>Register\<close> compares no counts: the number of recorded
  points alone bounds its loops. When the defined container holds more points than the
  (non-empty) recorded one, the surplus is never read: the solver gets \<open>defined[i]\<close> and
  \<open>recorded[i]\<close> for the indices \<open>i\<close> below the number of recorded points, and when the
  call returns \<^verbatim>\<open>Register\<close> stores the transform and the mean residual over these pairs
  and returns success.
\<close>

theorem Register_surplus_defined:
  assumes D: "DefinedLandmarks this = map Some defined @ surplus"
    and more: "surplus \<noteq> []"
    and R: "RecordedLandmarks this = map Some recorded"
    and len: "length defined = length recorded"
    and n: "1 \<le> length recorded"
    and S: "solve defined recorded = Some (A, t)"
  shows "GetNumberOfPoints (DefinedLandmarks this) \<noteq> GetNumberOfPoints (RecordedLandmarks this)
         \<and> Register solve this =
           Inr (PLUS_SUCCESS,
                this\<lparr>PhantomToReferenceTransformMatrix := Some (homogeneous A t),
                     RegistrationError :=
                       Finite (mean_distance (homogeneous A t) defined recorded)\<rparr>)"
proof
  show "GetNumberOfPoints (DefinedLandmarks this) \<noteq> GetNumberOfPoints (RecordedLandmarks this)"
    using more by (simp add: GetNumberOfPoints_def D R len)
  have pos: "0 < length recorded"
    using n by (cases recorded) simp_all
  show "Register solve this =
           Inr (PLUS_SUCCESS,
                this\<lparr>PhantomToReferenceTransformMatrix := Some (homogeneous A t),
                     RegistrationError :=
                       Finite (mean_distance (homogeneous A t) defined recorded)\<rparr>)"
    by (rule Register_publishes [where solve = solve, OF D R len pos S])
qed

theorem Register_surplus_defined_witness:
  "GetNumberOfPoints [Some (0, 0, 0), Some (7, 7, 7)] \<noteq> GetNumberOfPoints [Some (0, 0, 2)]
   \<and> Register (fixed_answer (identity3, (0, 0, 2)))
     \<lparr>RegistrationError = Finite (- 1), PhantomToReferenceTransformMatrix = None,
      DefinedLandmarks = [Some (0, 0, 0), Some (7, 7, 7)],
      RecordedLandmarks = [Some (0, 0, 2)],
      DefinedLandmarkNames = []\<rparr>
   = Inr (PLUS_SUCCESS,
          \<lparr>RegistrationError = Finite 0,
           PhantomToReferenceTransformMatrix =
             Some ((1, 0, 0, 0), (0, 1, 0, 0), (0, 0, 1, 2), (0, 0, 0, 1)),
           DefinedLandmarks = [Some (0, 0, 0), Some (7, 7, 7)],
           RecordedLandmarks = [Some (0, 0, 2)],
           DefinedLandmarkNames = []\<rparr>)"
  using Register_surplus_defined
    [of "\<lparr>RegistrationError = Finite (- 1), PhantomToReferenceTransformMatrix = None,
           DefinedLandmarks = [Some (0, 0, 0), Some (7, 7, 7)],
           RecordedLandmarks = [Some (0, 0, 2)],
           DefinedLandmarkNames = []\<rparr>"
        "[(0, 0, 0)]" "[Some (7, 7, 7)]" "[(0, 0, 2)]"
        "fixed_answer (identity3, (0, 0, 2))" identity3 "(0, 0, 2)"]
  by (simp add: fixed_answer_def identity3_def mean_distance_def residual_def)

text \<open>
  The claim as stated fails at four defined and three recorded landmarks: the fourth defined
  point is never read, and \<^verbatim>\<open>Register\<close> returns success.
\<close>

theorem Register_four_defined_three_recorded:
  "GetNumberOfPoints [Some (0, 0, 0), Some (1, 0, 0), Some (0, 1, 0), Some (9, 9, 9)] = 4
   \<and> GetNumberOfPoints [Some (5, 0, 0), Some (6, 0, 0), Some (5, 1, 0)] = 3
   \<and> Register (fixed_answer (identity3, (5, 0, 0)))
     \<lparr>RegistrationError = Finite (- 1), PhantomToReferenceTransformMatrix = None,
      DefinedLandmarks = [Some (0, 0, 0), Some (1, 0, 0), Some (0, 1, 0), Some (9, 9, 9)],
      RecordedLandmarks = [Some (5, 0, 0), Some (6, 0, 0), Some (5, 1, 0)],
      DefinedLandmarkNames = []\<rparr>
   = Inr (PLUS_SUCCESS,
          \<lparr>RegistrationError = Finite 0,
           PhantomToReferenceTransformMatrix =
             Some ((1, 0, 0, 5), (0, 1, 0, 0), (0, 0, 1, 0), (0, 0, 0, 1)),
           DefinedLandmarks = [Some (0, 0, 0), Some (1, 0, 0), Some (0, 1, 0), Some (9, 9, 9)],
           RecordedLandmarks = [Some (5, 0, 0), Some (6, 0, 0), Some (5, 1, 0)],
           DefinedLandmarkNames = []\<rparr>)"
  by (simp add: run_simps)

subsection \<open>C6: collinear defined landmarks\<close>

text \<open>
  Claim C6, as the code has it. \<^verbatim>\<open>Register\<close> tests no geometry. For three or more
  correspondences whose defined landmarks lie on one line it passes the points to the
  solver as they are and, when the library call returns, stores the solver's transform and
  the mean residual and returns success.
\<close>

theorem Register_collinear_defined:
  assumes D: "DefinedLandmarks this = map Some defined"
    and R: "RecordedLandmarks this = map Some recorded"
    and len: "length defined = length recorded"
    and n: "3 \<le> length defined"
    and line: "collinear_points defined"
    and S: "solve defined recorded = Some (A, t)"
  shows "Register solve this =
           Inr (PLUS_SUCCESS,
                this\<lparr>PhantomToReferenceTransformMatrix := Some (homogeneous A t),
                     RegistrationError :=
                       Finite (mean_distance (homogeneous A t) defined recorded)\<rparr>)"
proof -
  have pos: "0 < length recorded"
    using n len by (cases recorded) simp_all
  show ?thesis
    by (rule Register_publishes [where solve = solve and ex = "[]", OF _ R len pos S])
      (simp add: D)
qed

theorem Register_collinear_defined_witness:
  "collinear_points [(0, 0, 0), (1, 1, 1), (2, 2, 2), (3, 3, 3)]
   \<and> Register (fixed_answer (identity3, (0, 0, 0)))
     \<lparr>RegistrationError = Finite (- 1), PhantomToReferenceTransformMatrix = None,
      DefinedLandmarks = [Some (0, 0, 0), Some (1, 1, 1), Some (2, 2, 2), Some (3, 3, 3)],
      RecordedLandmarks = [Some (0, 0, 0), Some (1, 1, 1), Some (2, 2, 2), Some (3, 3, 3)],
      DefinedLandmarkNames = []\<rparr>
   = Inr (PLUS_SUCCESS,
          \<lparr>RegistrationError = Finite 0,
           PhantomToReferenceTransformMatrix = Some Identity,
           DefinedLandmarks = [Some (0, 0, 0), Some (1, 1, 1), Some (2, 2, 2), Some (3, 3, 3)],
           RecordedLandmarks = [Some (0, 0, 0), Some (1, 1, 1), Some (2, 2, 2), Some (3, 3, 3)],
           DefinedLandmarkNames = []\<rparr>)"
  using Register_collinear_defined
    [of "\<lparr>RegistrationError = Finite (- 1), PhantomToReferenceTransformMatrix = None,
           DefinedLandmarks = [Some (0, 0, 0), Some (1, 1, 1), Some (2, 2, 2), Some (3, 3, 3)],
           RecordedLandmarks = [Some (0, 0, 0), Some (1, 1, 1), Some (2, 2, 2), Some (3, 3, 3)],
           DefinedLandmarkNames = []\<rparr>"
        "[(0, 0, 0), (1, 1, 1), (2, 2, 2), (3, 3, 3)]"
        "[(0, 0, 0), (1, 1, 1), (2, 2, 2), (3, 3, 3)]"
        "fixed_answer (identity3, (0, 0, 0))" identity3 "(0, 0, 0)"]
  by (simp add: fixed_answer_def identity3_def mean_distance_def residual_def Identity_def
      upt_rec)

text \<open>
  The claim as stated fails at three defined landmarks on the x axis: \<^verbatim>\<open>Register\<close> stores
  what the solver returns and succeeds.
\<close>

theorem Register_three_collinear_succeeds:
  "collinear_points [(0, 0, 0), (1, 0, 0), (2, 0, 0)]
   \<and> Register (fixed_answer (identity3, (5, 0, 0)))
     \<lparr>RegistrationError = Finite (- 1), PhantomToReferenceTransformMatrix = None,
      DefinedLandmarks = [Some (0, 0, 0), Some (1, 0, 0), Some (2, 0, 0)],
      RecordedLandmarks = [Some (5, 0, 0), Some (6, 0, 0), Some (7, 0, 0)],
      DefinedLandmarkNames = []\<rparr>
   = Inr (PLUS_SUCCESS,
          \<lparr>RegistrationError = Finite 0,
           PhantomToReferenceTransformMatrix =
             Some ((1, 0, 0, 5), (0, 1, 0, 0), (0, 0, 1, 0), (0, 0, 0, 1)),
           DefinedLandmarks = [Some (0, 0, 0), Some (1, 0, 0), Some (2, 0, 0)],
           RecordedLandmarks = [Some (5, 0, 0), Some (6, 0, 0), Some (7, 0, 0)],
           DefinedLandmarkNames = []\<rparr>)"
  by (simp add: run_simps)

subsection \<open>C9: malformed entries of the configuration\<close>

text \<open>
  Claim C9, as the code has it. On a configuration that has the \<^verbatim>\<open>PhantomDefinition\<close>,
  \<^verbatim>\<open>Geometry\<close> and \<^verbatim>\<open>Landmarks\<close> elements, and whose entries with the tag \<^verbatim>\<open>Landmark\<close>
  carry a \<^verbatim>\<open>Name\<close>, \<^verbatim>\<open>ReadConfiguration\<close> skips every entry with another tag or without a
  parsable position, logging one warning for each, and stores every other entry's position
  and name at the entry's own 0-based index. It returns success if and only if at least
  one entry was stored.
\<close>

theorem ReadConfiguration_lenient:
  assumes nm: "\<forall>l\<in>set ls. named l"
  shows "\<exists>this' lg.
           ReadConfiguration
             (Some \<lparr>PhantomDefinition = Some \<lparr>Geometry = Some \<lparr>Landmarks = Some ls\<rparr>\<rparr>\<rparr>) this
           = Inr (if (\<exists>l\<in>set ls. accepted l) then PLUS_SUCCESS else PLUS_FAIL, this', lg)
           \<and> (\<forall>i<length ls. accepted (ls ! i) \<longrightarrow>
                 GetPoint (DefinedLandmarks this') i = Inr (Position_value (ls ! i))
                 \<and> DefinedLandmarkNames this' ! i = the (attr_Name (ls ! i)))
           \<and> length (filter skip_warning lg) = length (filter (\<lambda>l. \<not> accepted l) ls)"
proof -
  let ?this2 = "this\<lparr>DefinedLandmarks := [], RecordedLandmarks := [],
                      DefinedLandmarkNames := replicate (length ls) []\<rparr>"
  let ?this3 = "fst (scan_entries 0 ls ?this2 [])"
  let ?lg = "snd (scan_entries 0 ls ?this2 [])"
  let ?lg1 = "if length (DefinedLandmarks ?this3) \<noteq> length ls
              then ?lg @ [LOG_WARNING ''Some invalid landmarks were found!''] else ?lg"
  let ?lg2 = "if length (DefinedLandmarks ?this3) = 0
              then ?lg1 @ [LOG_ERROR ''No valid landmarks were found!''] else ?lg1"
  have count: "(length (DefinedLandmarks ?this3) = 0) = (\<not> (\<exists>l\<in>set ls. accepted l))"
  proof (cases "\<exists>l\<in>set ls. accepted l")
    case True
    then show ?thesis
      using scan_some_accepted [of ls 0 ?this2 "[]"] by simp
  next
    case False
    then have "DefinedLandmarks ?this3 = DefinedLandmarks ?this2"
      by (intro scan_no_accepted) simp
    then show ?thesis
      using False by simp
  qed
  have run: "ReadConfiguration
               (Some \<lparr>PhantomDefinition = Some \<lparr>Geometry = Some \<lparr>Landmarks = Some ls\<rparr>\<rparr>\<rparr>) this
             = Inr (if (\<exists>l\<in>set ls. accepted l) then PLUS_SUCCESS else PLUS_FAIL, ?this3, ?lg2)"
    unfolding ReadConfiguration_scan [OF nm] Let_def using count by auto
  have slots: "\<forall>i<length ls. accepted (ls ! i) \<longrightarrow>
                 GetPoint (DefinedLandmarks ?this3) i = Inr (Position_value (ls ! i))
                 \<and> DefinedLandmarkNames ?this3 ! i = the (attr_Name (ls ! i))"
  proof (intro allI impI)
    fix i
    assume i: "i < length ls" and acc: "accepted (ls ! i)"
    have "GetPoint (DefinedLandmarks ?this3) (0 + i) = Inr (Position_value (ls ! i))"
      by (rule scan_slot [OF i acc])
    moreover have "DefinedLandmarkNames ?this3 ! (0 + i) = the (attr_Name (ls ! i))"
      by (rule scan_name [OF i acc]) (simp add: i)
    ultimately show "GetPoint (DefinedLandmarks ?this3) i = Inr (Position_value (ls ! i))
                 \<and> DefinedLandmarkNames ?this3 ! i = the (attr_Name (ls ! i))"
      by simp
  qed
  have warn: "length (filter skip_warning ?lg2) = length (filter (\<lambda>l. \<not> accepted l) ls)"
    using scan_warnings [of 0 ls ?this2 "[]"] by (simp add: skip_warning_def)
  show ?thesis
    using run slots warn by blast
qed


theorem ReadConfiguration_lenient_witness:
  "\<exists>this' lg.
     ReadConfiguration
       (Some \<lparr>PhantomDefinition = Some \<lparr>Geometry = Some \<lparr>Landmarks = Some
          [\<lparr>elem_name = ''Landmark'', attr_Name = Some ''A'', Position_count = 3,
            Position_value = (1, 2, 3)\<rparr>,
           \<lparr>elem_name = ''NWire'', attr_Name = None, Position_count = 0,
            Position_value = (0, 0, 0)\<rparr>,
           \<lparr>elem_name = ''Landmark'', attr_Name = Some ''B'', Position_count = 0,
            Position_value = (0, 0, 0)\<rparr>,
           \<lparr>elem_name = ''landmark'', attr_Name = Some ''C'', Position_count = 3,
            Position_value = (4, 5, 6)\<rparr>]\<rparr>\<rparr>\<rparr>) new_algo
     = Inr (PLUS_SUCCESS, this', lg)
     \<and> GetPoint (DefinedLandmarks this') 0 = Inr (1, 2, 3)
     \<and> GetPoint (DefinedLandmarks this') 3 = Inr (4, 5, 6)
     \<and> DefinedLandmarkNames this' ! 3 = ''C''
     \<and> length (filter skip_warning lg) = 2"
proof -
  let ?a = "\<lparr>elem_name = ''Landmark'', attr_Name = Some ''A'', Position_count = 3,
            Position_value = (1, 2, 3)\<rparr>"
  let ?b = "\<lparr>elem_name = ''NWire'', attr_Name = None, Position_count = 0,
            Position_value = (0, 0, 0)\<rparr>"
  let ?c = "\<lparr>elem_name = ''Landmark'', attr_Name = Some ''B'', Position_count = 0,
            Position_value = (0, 0, 0)\<rparr>"
  let ?d = "\<lparr>elem_name = ''landmark'', attr_Name = Some ''C'', Position_count = 3,
            Position_value = (4, 5, 6)\<rparr>"
  let ?ls = "[?a, ?b, ?c, ?d]"
  have nm: "\<forall>l\<in>set ?ls. named l"
    by (simp add: named_def tag_NWire)
  have acc: "accepted ?a" "\<not> accepted ?b" "\<not> accepted ?c" "accepted ?d"
    by (simp_all add: accepted_def tag_Landmark tag_landmark_lower tag_NWire)
  from ReadConfiguration_lenient [OF nm, of new_algo]
  obtain this' lg where
    run: "ReadConfiguration
            (Some \<lparr>PhantomDefinition = Some \<lparr>Geometry = Some \<lparr>Landmarks = Some ?ls\<rparr>\<rparr>\<rparr>) new_algo
          = Inr (if (\<exists>l\<in>set ?ls. accepted l) then PLUS_SUCCESS else PLUS_FAIL, this', lg)"
    and slots: "\<forall>i<length ?ls. accepted (?ls ! i) \<longrightarrow>
                 GetPoint (DefinedLandmarks this') i = Inr (Position_value (?ls ! i))
                 \<and> DefinedLandmarkNames this' ! i = the (attr_Name (?ls ! i))"
    and warn: "length (filter skip_warning lg) = length (filter (\<lambda>l. \<not> accepted l) ?ls)"
    by blast
  have r: "ReadConfiguration
            (Some \<lparr>PhantomDefinition = Some \<lparr>Geometry = Some \<lparr>Landmarks = Some ?ls\<rparr>\<rparr>\<rparr>) new_algo
          = Inr (PLUS_SUCCESS, this', lg)"
    using run acc(1) by simp
  have s0: "GetPoint (DefinedLandmarks this') 0 = Inr (1, 2, 3)"
    using slots [rule_format, of 0] acc(1) by simp
  have s3: "GetPoint (DefinedLandmarks this') 3 = Inr (4, 5, 6)
            \<and> DefinedLandmarkNames this' ! 3 = ''C''"
    using slots [rule_format, of 3] acc(4) by simp
  have w: "length (filter skip_warning lg) = 2"
    using warn acc by simp
  show ?thesis
    using r s0 s3 w by blast
qed

text \<open>
  The claim as stated fails at a configuration with a single valid entry: fewer than three
  valid entries remain, and the collection succeeds.
\<close>

theorem ReadConfiguration_one_valid_entry:
  "length (filter accepted
     [\<lparr>elem_name = ''Landmark'', attr_Name = Some ''A'', Position_count = 3,
       Position_value = (1, 2, 3)\<rparr>]) = 1
   \<and> ReadConfiguration
       (Some \<lparr>PhantomDefinition = Some \<lparr>Geometry = Some \<lparr>Landmarks = Some
          [\<lparr>elem_name = ''Landmark'', attr_Name = Some ''A'', Position_count = 3,
            Position_value = (1, 2, 3)\<rparr>]\<rparr>\<rparr>\<rparr>) new_algo
     = Inr (PLUS_SUCCESS,
            \<lparr>RegistrationError = Finite (- 1), PhantomToReferenceTransformMatrix = None,
             DefinedLandmarks = [Some (1, 2, 3)], RecordedLandmarks = [],
             DefinedLandmarkNames = [''A'']\<rparr>,
            [])"
  by (simp add: accepted_def tag_Landmark ReadConfiguration_def read_landmarks.simps
      GetNestedElement_def new_algo_def Reset_def InsertPoint_def GetNumberOfPoints_def)

end
